theory Spec2Isabelle
  imports Complex_Main "HOL-Library.Sublist" "HOL-Library.AList"
begin

section \<open>Python values\<close>

text \<open>
  The values that travel through the memory manager come from JSON: message fields,
  metadata bags and tool arguments. Strings are lists of characters; a dictionary is an
  association list in insertion order (keys are strings, as in JSON). Floating-point
  numbers do not occur in any field the functions below inspect and are left out.
\<close>

datatype pyval =
    VNone
  | VBool bool
  | VInt int
  | VStr string
  | VList "pyval list"
  | VDict "(string \<times> pyval) list"

type_synonym pydict = "(string \<times> pyval) list"

definition nl :: string where
  "nl = [CHR 0x0A]"

section \<open>Token counter (utils/token_counter.py)\<close>

text \<open>
  The tokenizer itself (tiktoken) is not part of the repository: \<open>TokenCounter\<close> only
  calls \<open>encoding.encode\<close> and \<open>encoding.decode\<close>. The encoding is therefore a parameter
  of every function below; the type of tokens is left open. Python's \<open>str(value)\<close> on a
  dictionary is a builtin as well and is passed as the parameter \<open>str_of\<close>.
\<close>

record 'tok encoding =
  encode :: "string \<Rightarrow> 'tok list"
  decode :: "'tok list \<Rightarrow> string"

text \<open>\<open>count_tokens\<close>: the empty text is answered without calling the encoder.\<close>

definition count_tokens :: "'tok encoding \<Rightarrow> string \<Rightarrow> nat" where
  "count_tokens enc text = (if text = [] then 0 else length (encode enc text))"

text \<open>
  \<open>count_message_tokens\<close> is three nested loops over one accumulator \<open>num_tokens\<close>:
  over the messages, over the items of a message, and over the elements of a
  list-valued field. Each loop is a recursive function that threads the accumulator.
\<close>

fun count_list_items :: "'tok encoding \<Rightarrow> (pyval \<Rightarrow> string) \<Rightarrow> pyval list \<Rightarrow> nat \<Rightarrow> nat" where
  "count_list_items enc str_of [] num_tokens = num_tokens"
| "count_list_items enc str_of (item # items) num_tokens =
     count_list_items enc str_of items
       (case item of
          VStr s \<Rightarrow> num_tokens + count_tokens enc s
        | VDict d \<Rightarrow> num_tokens + count_tokens enc (str_of (VDict d))
        | _ \<Rightarrow> num_tokens)"

fun count_message_items :: "'tok encoding \<Rightarrow> (pyval \<Rightarrow> string) \<Rightarrow> pydict \<Rightarrow> nat \<Rightarrow> nat" where
  "count_message_items enc str_of [] num_tokens = num_tokens"
| "count_message_items enc str_of ((key, val) # kvs) num_tokens =
     count_message_items enc str_of kvs
       (case val of
          VStr s \<Rightarrow> num_tokens + count_tokens enc s
        | VList items \<Rightarrow> count_list_items enc str_of items num_tokens
        | VDict d \<Rightarrow> num_tokens + count_tokens enc (str_of (VDict d))
        | _ \<Rightarrow> num_tokens)"

fun count_messages_loop :: "'tok encoding \<Rightarrow> (pyval \<Rightarrow> string) \<Rightarrow> pydict list \<Rightarrow> nat \<Rightarrow> nat" where
  "count_messages_loop enc str_of [] num_tokens = num_tokens"
| "count_messages_loop enc str_of (message # messages) num_tokens =
     count_messages_loop enc str_of messages
       (count_message_items enc str_of message (num_tokens + 4))"

definition count_message_tokens :: "'tok encoding \<Rightarrow> (pyval \<Rightarrow> string) \<Rightarrow> pydict list \<Rightarrow> nat" where
  "count_message_tokens enc str_of messages =
     (if messages = [] then 0
      else count_messages_loop enc str_of messages 0 + 2)"

definition estimate_tokens_remaining ::
  "'tok encoding \<Rightarrow> (pyval \<Rightarrow> string) \<Rightarrow> pydict list \<Rightarrow> int \<Rightarrow> int" where
  "estimate_tokens_remaining enc str_of messages max_tokens =
     max 0 (max_tokens - int (count_message_tokens enc str_of messages))"

text \<open>
  Python's slice \<open>xs[:n]\<close>: a negative bound counts from the end of the list.
\<close>

definition py_slice_to :: "int \<Rightarrow> 'a list \<Rightarrow> 'a list" where
  "py_slice_to n xs =
     (if 0 \<le> n then take (nat n) xs else take (length xs - nat (- n)) xs)"

definition truncate_text :: "'tok encoding \<Rightarrow> string \<Rightarrow> int \<Rightarrow> string" where
  "truncate_text enc text max_tokens =
     (if text = [] then []
      else let tokens = encode enc text in
        if int (length tokens) \<le> max_tokens then text
        else decode enc (py_slice_to max_tokens tokens))"

subsection \<open>The counting rule in the words of the specification\<close>

text \<open>
  What one list element and one field contribute, written as sums: a string counts its
  tokens, a dictionary is stringified and counted, a list sums its string and dictionary
  elements, and every other value (\<open>None\<close>, numbers, booleans, nested lists inside a
  list) contributes nothing.
\<close>

definition item_tokens :: "'tok encoding \<Rightarrow> (pyval \<Rightarrow> string) \<Rightarrow> pyval \<Rightarrow> nat" where
  "item_tokens enc str_of item =
     (case item of
        VStr s \<Rightarrow> count_tokens enc s
      | VDict d \<Rightarrow> count_tokens enc (str_of (VDict d))
      | _ \<Rightarrow> 0)"

definition field_tokens :: "'tok encoding \<Rightarrow> (pyval \<Rightarrow> string) \<Rightarrow> pyval \<Rightarrow> nat" where
  "field_tokens enc str_of val =
     (case val of
        VStr s \<Rightarrow> count_tokens enc s
      | VList items \<Rightarrow> sum_list (map (item_tokens enc str_of) items)
      | VDict d \<Rightarrow> count_tokens enc (str_of (VDict d))
      | _ \<Rightarrow> 0)"

definition message_tokens :: "'tok encoding \<Rightarrow> (pyval \<Rightarrow> string) \<Rightarrow> pydict \<Rightarrow> nat" where
  "message_tokens enc str_of message =
     4 + sum_list (map (\<lambda>kv. field_tokens enc str_of (snd kv)) message)"

definition count_messages_spec :: "'tok encoding \<Rightarrow> (pyval \<Rightarrow> string) \<Rightarrow> pydict list \<Rightarrow> nat" where
  "count_messages_spec enc str_of messages =
     sum_list (map (message_tokens enc str_of) messages) + 2"

subsection \<open>Two concrete tokenizers\<close>

text \<open>
  The simplest tokenizer has one token per character. The second one is byte-pair
  encoding with a vocabulary of two merges, \<open>b c\<close> ranked before \<open>a b\<close>: every \<open>bc\<close> is
  merged first, then every \<open>ab\<close> that is left. Its tokens are the merged texts.
\<close>

definition char_enc :: "char encoding" where
  "char_enc = \<lparr>encode = (\<lambda>s. s), decode = (\<lambda>ts. ts)\<rparr>"

fun bpe_encode :: "string \<Rightarrow> string list" where
  "bpe_encode [] = []"
| "bpe_encode [c] = [[c]]"
| "bpe_encode (c # d # cs) =
     (if [c, d] = ''bc'' then ''bc'' # bpe_encode cs
      else if [c, d] = ''ab'' \<and> \<not> prefix ''c'' cs then ''ab'' # bpe_encode cs
      else [c] # bpe_encode (d # cs))"

definition bpe_enc :: "string encoding" where
  "bpe_enc = \<lparr>encode = bpe_encode, decode = concat\<rparr>"

text \<open>
  A tokenizer is well behaved when decoding undoes encoding, decoding a sequence of
  tokens is the concatenation of decoding its parts, and every leading part of an
  encoding is itself the encoding of the text it stands for.
\<close>

definition well_behaved :: "'tok encoding \<Rightarrow> bool" where
  "well_behaved enc \<longleftrightarrow>
     (\<forall>t. decode enc (encode enc t) = t) \<and>
     (\<forall>ts us. decode enc (ts @ us) = decode enc ts @ decode enc us) \<and>
     (\<forall>t n. encode enc (decode enc (take n (encode enc t))) = take n (encode enc t))"

section \<open>Python strings\<close>

text \<open>
  The builtins the repository calls on strings. \<open>old in s\<close> is the contiguous-sublist
  test \<^const>\<open>sublist\<close>. \<open>s.replace(old, new, 1)\<close> replaces the leftmost occurrence; the
  empty pattern occurs at position 0. \<open>sep.join(xs)\<close> and \<open>s.upper()\<close> follow; \<open>upper\<close>
  is modelled on the ASCII letters.
\<close>

fun py_replace_first :: "string \<Rightarrow> string \<Rightarrow> string \<Rightarrow> string" where
  "py_replace_first old new [] = (if old = [] then new else [])"
| "py_replace_first old new (c # cs) =
     (if prefix old (c # cs) then new @ drop (length old) (c # cs)
      else c # py_replace_first old new cs)"

fun py_join :: "string \<Rightarrow> string list \<Rightarrow> string" where
  "py_join sep [] = []"
| "py_join sep [x] = x"
| "py_join sep (x # y # ys) = x @ sep @ py_join sep (y # ys)"

definition upper_char :: "char \<Rightarrow> char" where
  "upper_char c =
     (case map_of (zip ''abcdefghijklmnopqrstuvwxyz'' ''ABCDEFGHIJKLMNOPQRSTUVWXYZ'') c of
        Some u \<Rightarrow> u
      | None \<Rightarrow> c)"

definition py_upper :: "string \<Rightarrow> string" where
  "py_upper s = map upper_char s"

text \<open>Truthiness of a dictionary argument (\<open>if metadata:\<close>): \<open>None\<close> and \<open>{}\<close> are false.\<close>

definition truthy_dict :: "pydict option \<Rightarrow> pydict option" where
  "truthy_dict md = (case md of None \<Rightarrow> None | Some d \<Rightarrow> if d = [] then None else Some d)"

section \<open>Core memory (memory/core_memory.py)\<close>

text \<open>
  The working context is a Python dictionary from section names to texts: an association
  list with distinct keys, in insertion order. Each method returns the new dictionary
  together with its boolean result.
\<close>

type_synonym sections = "(string \<times> string) list"

definition default_sections :: sections where
  "default_sections =
     [(''persona'', ''I am MemGPT, an intelligent memory management system.''),
      (''human'', ''No information about the user yet.'')]"

definition get_section :: "sections \<Rightarrow> string \<Rightarrow> string option" where
  "get_section secs section = map_of secs section"

definition append_section :: "sections \<Rightarrow> string \<Rightarrow> string \<Rightarrow> sections \<times> bool" where
  "append_section secs section content =
     (case map_of secs section of
        None \<Rightarrow> (secs, False)
      | Some current \<Rightarrow> (AList.update section (current @ nl @ content) secs, True))"

definition replace :: "sections \<Rightarrow> string \<Rightarrow> string \<Rightarrow> string \<Rightarrow> sections \<times> bool" where
  "replace secs section old_content new_content =
     (case map_of secs section of
        None \<Rightarrow> (secs, False)
      | Some current \<Rightarrow>
          if \<not> sublist old_content current then (secs, False)
          else (AList.update section (py_replace_first old_content new_content current) secs,
                True))"

fun to_string_lines :: "sections \<Rightarrow> string list" where
  "to_string_lines [] = []"
| "to_string_lines ((section, content) # rest) =
     (nl @ ''['' @ py_upper section @ '']'') # content # to_string_lines rest"

definition to_string :: "sections \<Rightarrow> string" where
  "to_string secs =
     py_join nl ([''### Core Memory (Working Context) ###''] @ to_string_lines secs @
                 [nl @ ''### End Core Memory ###'' @ nl])"

section \<open>Recall storage (persistence/sqlite_store.py)\<close>

text \<open>
  The table \<open>message_history\<close> as the list of its rows in insertion order.
  \<open>AUTOINCREMENT\<close> hands out one more than the largest id used so far, kept in
  \<open>last_id\<close>. The timestamp column is filled by the database clock and is not modelled;
  the metadata column holds the dictionary that the code serialises to JSON.
\<close>

record recall_row =
  row_id :: nat
  row_role :: string
  row_content :: string
  row_summary_id :: "nat option"
  row_metadata :: "pydict option"

record recall_storage =
  rows :: "recall_row list"
  last_id :: nat

definition insert_message ::
  "recall_storage \<Rightarrow> string \<Rightarrow> string \<Rightarrow> nat option \<Rightarrow> pydict option \<Rightarrow> recall_storage \<times> nat" where
  "insert_message st role content summary_id md =
     (let metadata_json = truthy_dict md;
          lastrowid = last_id st + 1
      in (\<lparr>rows = rows st @
                  [\<lparr>row_id = lastrowid, row_role = role, row_content = content,
                    row_summary_id = summary_id, row_metadata = metadata_json\<rparr>],
           last_id = lastrowid\<rparr>,
          lastrowid))"

section \<open>Queue manager (memory/queue_manager.py)\<close>

text \<open>
  A queue message always carries \<open>role\<close> and \<open>content\<close> and may carry \<open>metadata\<close>;
  \<open>message_items\<close> lists the items of the Python dictionary, which is what the token
  counter iterates over.
\<close>

record message =
  msg_role :: string
  msg_content :: string
  msg_metadata :: "pydict option"

definition message_items :: "message \<Rightarrow> pydict" where
  "message_items m =
     [(''role'', VStr (msg_role m)), (''content'', VStr (msg_content m))] @
     (case msg_metadata m of None \<Rightarrow> [] | Some md \<Rightarrow> [(''metadata'', VDict md)])"

text \<open>
  The fields of the class. The summarisation callback is optional and may raise: it
  returns \<open>None\<close> when it does. The thresholds are Python floats; they are modelled as
  reals, and the results below use nothing of the products \<open>max_tokens * threshold\<close>
  but their order against the token count.
\<close>

record 'tok queue_manager =
  max_tokens :: int
  token_counter :: "'tok encoding"
  recall_storage :: recall_storage
  summarize_func :: "(string \<Rightarrow> string option) option"
  warning_threshold :: real
  flush_threshold :: real
  queue :: "message list"

definition initial_summary :: message where
  "initial_summary =
     \<lparr>msg_role = ''system'',
      msg_content = ''Conversation summary: No previous interactions.'',
      msg_metadata = None\<rparr>"

definition warning_msg :: message where
  "warning_msg =
     \<lparr>msg_role = ''system'',
      msg_content = ''System Alert: Memory pressure detected. Save important data immediately.'',
      msg_metadata = None\<rparr>"

definition init_queue_manager ::
  "int \<Rightarrow> 'tok encoding \<Rightarrow> recall_storage \<Rightarrow> (string \<Rightarrow> string option) option \<Rightarrow>
   real \<Rightarrow> real \<Rightarrow> 'tok queue_manager" where
  "init_queue_manager mt tc rs sf wt ft =
     \<lparr>max_tokens = mt, token_counter = tc, recall_storage = rs, summarize_func = sf,
      warning_threshold = wt, flush_threshold = ft, queue = [initial_summary]\<rparr>"

definition get_queue_size :: "(pyval \<Rightarrow> string) \<Rightarrow> 'tok queue_manager \<Rightarrow> nat" where
  "get_queue_size str_of qm =
     count_message_tokens (token_counter qm) str_of (map message_items (queue qm))"

definition format_messages_for_summary :: "message list \<Rightarrow> string" where
  "format_messages_for_summary messages =
     py_join nl (map (\<lambda>msg. py_upper (msg_role msg) @ '': '' @ msg_content msg) messages)"

definition summary_prompt :: "string \<Rightarrow> string \<Rightarrow> string" where
  "summary_prompt current_summary evicted_text =
     ''Summarize the following interaction based on the previous summary.'' @ nl @
     ''Focus on key facts, decisions, and important information.'' @ nl @ nl @
     ''Previous Summary:'' @ nl @ current_summary @ nl @ nl @
     ''New Interactions to Incorporate:'' @ nl @ evicted_text @ nl @ nl @
     ''Generate a concise updated summary:''"

definition fallback_summary :: "string \<Rightarrow> string \<Rightarrow> string" where
  "fallback_summary current_summary evicted_text =
     current_summary @ nl @ nl @ ''Recent activity: '' @ take 500 evicted_text @ ''...''"

definition generate_summary :: "'tok queue_manager \<Rightarrow> string \<Rightarrow> string \<Rightarrow> string" where
  "generate_summary qm current_summary evicted_text =
     (case summarize_func qm of
        Some f \<Rightarrow>
          (case f (summary_prompt current_summary evicted_text) of
             Some new_summary \<Rightarrow> new_summary
           | None \<Rightarrow> fallback_summary current_summary evicted_text)
      | None \<Rightarrow> fallback_summary current_summary evicted_text)"

text \<open>The loop that persists the evicted messages, oldest first.\<close>

fun persist_messages :: "recall_storage \<Rightarrow> message list \<Rightarrow> recall_storage" where
  "persist_messages st [] = st"
| "persist_messages st (msg # msgs) =
     persist_messages
       (fst (insert_message st (msg_role msg) (msg_content msg) None (msg_metadata msg))) msgs"

definition evict_messages :: "'tok queue_manager \<Rightarrow> 'tok queue_manager" where
  "evict_messages qm =
     (if length (queue qm) \<le> 1 then qm
      else
        let num_to_evict = max 1 ((length (queue qm) - 1) div 3);
            current_summary = msg_content (queue qm ! 0);
            evicted_messages = take num_to_evict (drop 1 (queue qm));
            evicted_text = format_messages_for_summary evicted_messages;
            new_summary = generate_summary qm current_summary evicted_text
        in qm\<lparr>recall_storage := persist_messages (recall_storage qm) evicted_messages,
               queue := \<lparr>msg_role = ''system'', msg_content = new_summary, msg_metadata = None\<rparr>
                        # drop (num_to_evict + 1) (queue qm)\<rparr>)"

definition is_pressure_warning :: "message \<Rightarrow> bool" where
  "is_pressure_warning m \<longleftrightarrow>
     msg_role m = ''system'' \<and> sublist ''Memory pressure'' (msg_content m)"

definition check_memory_pressure ::
  "(pyval \<Rightarrow> string) \<Rightarrow> 'tok queue_manager \<Rightarrow> 'tok queue_manager \<times> bool" where
  "check_memory_pressure str_of qm =
     (let current_tokens = get_queue_size str_of qm in
      if real current_tokens > real_of_int (max_tokens qm) * warning_threshold qm \<and>
         \<not> (queue qm \<noteq> [] \<and> is_pressure_warning (last (queue qm)))
      then (qm\<lparr>queue := queue qm @ [warning_msg]\<rparr>, True)
      else if real current_tokens \<ge> real_of_int (max_tokens qm) * flush_threshold qm
      then (evict_messages qm, False)
      else (qm, False))"

definition add_message ::
  "(pyval \<Rightarrow> string) \<Rightarrow> 'tok queue_manager \<Rightarrow> string \<Rightarrow> string \<Rightarrow> pydict option \<Rightarrow>
   'tok queue_manager \<times> bool" where
  "add_message str_of qm role content md =
     (let message = \<lparr>msg_role = role, msg_content = content, msg_metadata = truthy_dict md\<rparr>
      in check_memory_pressure str_of (qm\<lparr>queue := queue qm @ [message]\<rparr>))"

definition clear_queue :: "'tok queue_manager \<Rightarrow> bool \<Rightarrow> 'tok queue_manager" where
  "clear_queue qm keep_summary =
     (if keep_summary \<and> queue qm \<noteq> [] then qm\<lparr>queue := [queue qm ! 0]\<rparr>
      else qm\<lparr>queue := [initial_summary]\<rparr>)"

definition set_summary :: "'tok queue_manager \<Rightarrow> string \<Rightarrow> 'tok queue_manager" where
  "set_summary qm summary =
     (if queue qm \<noteq> []
      then qm\<lparr>queue := (queue qm)[0 := \<lparr>msg_role = ''system'', msg_content = summary,
                                         msg_metadata = None\<rparr>]\<rparr>
      else qm\<lparr>queue := [\<lparr>msg_role = ''system'', msg_content = summary, msg_metadata = None\<rparr>]\<rparr>)"

definition get_summary :: "'tok queue_manager \<Rightarrow> string" where
  "get_summary qm = (if queue qm \<noteq> [] then msg_content (queue qm ! 0) else [])"

text \<open>
  The operations a caller can apply to a queue manager, and a sequence of them run from
  left to right. \<open>Evict\<close> stands for a direct call of the eviction routine.
\<close>

datatype queue_op =
    Add string string "pydict option"
  | Clear bool
  | SetSummary string
  | Evict

fun apply_op :: "(pyval \<Rightarrow> string) \<Rightarrow> 'tok queue_manager \<Rightarrow> queue_op \<Rightarrow> 'tok queue_manager" where
  "apply_op str_of qm (Add role content md) = fst (add_message str_of qm role content md)"
| "apply_op str_of qm (Clear keep_summary) = clear_queue qm keep_summary"
| "apply_op str_of qm (SetSummary summary) = set_summary qm summary"
| "apply_op str_of qm Evict = evict_messages qm"

fun run_ops :: "(pyval \<Rightarrow> string) \<Rightarrow> 'tok queue_manager \<Rightarrow> queue_op list \<Rightarrow> 'tok queue_manager" where
  "run_ops str_of qm [] = qm"
| "run_ops str_of qm (op # ops) = run_ops str_of (apply_op str_of qm op) ops"

fun adds_system :: "queue_op \<Rightarrow> bool" where
  "adds_system (Add role content md) = (role = ''system'')"
| "adds_system _ = False"

section \<open>Token counter: results\<close>

lemma count_list_items_sum:
  "count_list_items enc str_of items num =
     num + sum_list (map (item_tokens enc str_of) items)"
  by (induction items arbitrary: num) (auto simp: item_tokens_def split: pyval.splits)

lemma count_message_items_sum:
  "count_message_items enc str_of message num =
     num + sum_list (map (\<lambda>kv. field_tokens enc str_of (snd kv)) message)"
  by (induction message arbitrary: num)
     (auto simp: field_tokens_def count_list_items_sum split: pyval.splits)

lemma count_messages_loop_sum:
  "count_messages_loop enc str_of messages num =
     num + sum_list (map (message_tokens enc str_of) messages)"
  by (induction messages arbitrary: num)
     (auto simp: message_tokens_def count_message_items_sum)

lemma well_behaved_char_enc: "well_behaved char_enc"
  by (simp add: well_behaved_def char_enc_def)

text \<open>
  Claim C6, as the code has it: for a non-empty list of messages the count is the sum,
  over the messages, of 4 plus what each field contributes, plus the primer of 2; the
  empty list is answered with 0 before the primer is added.
\<close>

theorem count_message_tokens_sum:
  "count_message_tokens enc str_of messages =
     (if messages = [] then 0 else count_messages_spec enc str_of messages)"
  by (simp add: count_message_tokens_def count_messages_spec_def count_messages_loop_sum)

theorem count_message_tokens_sum_witness:
  "count_message_tokens char_enc (\<lambda>v. ''{}'')
     [[(''role'', VStr ''user''), (''content'', VStr ''hi''), (''n'', VInt 7)]] = 12"
  using count_message_tokens_sum [of char_enc "\<lambda>v. ''{}''"
      "[[(''role'', VStr ''user''), (''content'', VStr ''hi''), (''n'', VInt 7)]]"]
  by (simp add: count_messages_spec_def message_tokens_def field_tokens_def
      count_tokens_def char_enc_def)

text \<open>
  Claim C6 as stated fails: the empty list counts 0, not the primer 2, and a field
  whose value is a number adds nothing to the count of its message.
\<close>

theorem count_message_tokens_counterexample:
  "count_message_tokens char_enc (\<lambda>v. ''{}'') [] \<noteq> 2 \<and>
   count_message_tokens char_enc (\<lambda>v. ''{}'') [[(''role'', VStr ''user''), (''n'', VInt 7)]] =
   count_message_tokens char_enc (\<lambda>v. ''{}'') [[(''role'', VStr ''user'')]]"
  by (simp add: count_message_tokens_def count_tokens_def char_enc_def)

lemma decode_take_prefix:
  assumes "well_behaved enc"
  shows "prefix (decode enc (take k (encode enc t))) t"
proof -
  have "decode enc (take k (encode enc t) @ drop k (encode enc t)) =
        decode enc (take k (encode enc t)) @ decode enc (drop k (encode enc t))"
    using assms unfolding well_behaved_def by blast
  moreover have "decode enc (take k (encode enc t) @ drop k (encode enc t)) = t"
    using assms by (simp add: well_behaved_def)
  ultimately show ?thesis
    by (metis prefixI)
qed

lemma count_decode_take:
  assumes "well_behaved enc"
  shows "count_tokens enc (decode enc (take k (encode enc t))) \<le> k"
proof -
  have "encode enc (decode enc (take k (encode enc t))) = take k (encode enc t)"
    using assms unfolding well_behaved_def by blast
  then show ?thesis
    by (simp add: count_tokens_def)
qed

text \<open>
  Claim C8, as the code has it: for a limit \<open>n \<ge> 0\<close> and a well-behaved tokenizer,
  \<open>truncate_text\<close> returns the text itself when it fits and otherwise the text of its
  first \<open>n\<close> tokens; the result is a prefix of the text and counts at most \<open>n\<close> tokens.
\<close>

theorem truncate_text_prefix_bound:
  assumes wb: "well_behaved enc" and n: "0 \<le> n"
  shows "truncate_text enc t n =
           (if int (count_tokens enc t) \<le> n then t
            else decode enc (take (nat n) (encode enc t))) \<and>
         prefix (truncate_text enc t n) t \<and>
         int (count_tokens enc (truncate_text enc t n)) \<le> n"
proof (cases "int (count_tokens enc t) \<le> n")
  case True
  then have "truncate_text enc t n = t"
    by (auto simp: truncate_text_def count_tokens_def Let_def)
  with True show ?thesis by simp
next
  case False
  then have eq: "truncate_text enc t n = decode enc (take (nat n) (encode enc t))"
    using n by (auto simp: truncate_text_def count_tokens_def Let_def py_slice_to_def)
  have "count_tokens enc (decode enc (take (nat n) (encode enc t))) \<le> nat n"
    using wb by (rule count_decode_take)
  then have "int (count_tokens enc (decode enc (take (nat n) (encode enc t)))) \<le> n"
    using n by linarith
  with False eq decode_take_prefix [OF wb] show ?thesis by simp
qed

theorem truncate_text_prefix_bound_witness:
  "truncate_text char_enc ''abc'' 2 = ''ab'' \<and> prefix ''ab'' ''abc'' \<and>
   int (count_tokens char_enc ''ab'') \<le> 2"
  using truncate_text_prefix_bound [OF well_behaved_char_enc, of 2 "''abc''"]
  by (simp add: count_tokens_def char_enc_def)

text \<open>
  Claim C8 as stated fails. With one token per character and the limit \<open>-1\<close> the slice
  drops the last token only, so the result counts more tokens than the limit. With the
  two-merge tokenizer and limit 1 the result is \<open>a\<close>, although the longer prefix \<open>ab\<close>
  is a single token.
\<close>

theorem truncate_text_counterexample:
  "truncate_text char_enc ''ab'' (- 1) = ''a'' \<and>
   \<not> int (count_tokens char_enc (truncate_text char_enc ''ab'' (- 1))) \<le> - 1 \<and>
   truncate_text bpe_enc ''abc'' 1 = ''a'' \<and>
   prefix ''ab'' ''abc'' \<and> count_tokens bpe_enc ''ab'' = 1 \<and>
   length ''a'' < length ''ab''"
  by (simp add: truncate_text_def count_tokens_def char_enc_def bpe_enc_def
      py_slice_to_def Let_def)

end
